theory Spec2Isabelle
  imports Complex_Main "HOL-Library.Word"
begin

section \<open>The image-analysis route (route.js) and the backend call (utils.js)\<close>

text \<open>
  The Express handler of \<^verbatim>\<open>router.post("/")\<close> and the function \<^verbatim>\<open>analyzeImage\<close> it
  calls are embedded as HOL functions. A JavaScript string is a \<^typ>\<open>string\<close> (the code
  units below 256), a \<^verbatim>\<open>Buffer\<close> a list of bytes, a JSON value a \<open>jvalue\<close>. Every
  \<^verbatim>\<open>throw\<close> is a value \<open>Inl e\<close>; every call that leaves the process (the image
  library, the generative model, the console) is recorded in a trace of events, in the
  order the calls happen.
\<close>

subsection \<open>Data\<close>

type_synonym buffer = "8 word list"

text \<open>
  A JSON value, as in the body of a request or of a response: an object is the list of its
  members, in the order they are written.
\<close>

datatype jvalue =
    JNull
  | JBool bool
  | JNum real
  | JStr string
  | JArr "jvalue list"
  | JObj "(string \<times> jvalue) list"

text \<open>An error object, by its constructor; the argument is its \<^verbatim>\<open>message\<close>.\<close>

datatype js_error = TypeError string | SyntaxError string | Error string

fun message :: "js_error \<Rightarrow> string" where
  "message (TypeError m) = m"
| "message (SyntaxError m) = m"
| "message (Error m) = m"

text \<open>The object built by \<^verbatim>\<open>fileToGenerativePart\<close>: \<^verbatim>\<open>{ inlineData: { data, mimeType } }\<close>.\<close>

record inline_data =
  data :: string
  mimeType :: string

record generative_part =
  inlineData :: inline_data

text \<open>
  The \<^verbatim>\<open>value\<close> that the schema returns, destructured by the handler into \<^verbatim>\<open>image\<close>, taken
  to be a string, and \<^verbatim>\<open>dict_of_vars\<close>.
\<close>

record request_value =
  image :: string
  dict_of_vars :: jvalue

text \<open>\<^verbatim>\<open>res.status(code).json(body)\<close>: the status code and the fields of the body, in order.\<close>

record response =
  status_code :: nat
  json :: "(string \<times> jvalue) list"

datatype event =
    SharpResize buffer
  | GenerateContent string generative_part
  | ConsoleLog string string
  | ConsoleErrorText string string
  | ConsoleError string js_error

text \<open>
  What the code imports and does not define: the schema of \<^verbatim>\<open>schema.js\<close>, the library
  \<^verbatim>\<open>sharp\<close>, the model object of the generative-AI client, and the built-ins
  \<^verbatim>\<open>Buffer.from\<close>, \<^verbatim>\<open>Buffer.toString\<close>, \<^verbatim>\<open>JSON.stringify\<close> and \<^verbatim>\<open>JSON.parse\<close>. They are
  parameters; \<open>'r\<close> is the type of the object \<^verbatim>\<open>generateContent\<close> resolves to. The texts
  of the two \<^verbatim>\<open>TypeError\<close>s that the runtime itself raises are the engine's.
\<close>

record 'r env =
  schema_validate :: "jvalue \<Rightarrow> jvalue + request_value"
  buffer_from_base64 :: "string \<Rightarrow> buffer"
  sharp_resize :: "buffer \<Rightarrow> js_error + buffer"
  buffer_to_base64 :: "buffer \<Rightarrow> string"
  json_stringify :: "jvalue \<Rightarrow> string"
  generateContent :: "string \<Rightarrow> generative_part \<Rightarrow> js_error + 'r"
  response_text :: "'r \<Rightarrow> js_error + string"
  json_parse :: "string \<Rightarrow> js_error + jvalue"
  null_read_message :: string
  buffer_arg_message :: string

subsection \<open>String operations of the runtime\<close>

text \<open>\<^verbatim>\<open>s.split(",")\<close>: the pieces between the separators; never empty.\<close>

fun split_on :: "char \<Rightarrow> string \<Rightarrow> string list" where
  "split_on sep [] = [[]]"
| "split_on sep (c # cs) =
     (if c = sep then [] # split_on sep cs
      else (case split_on sep cs of
              [] \<Rightarrow> [[c]]
            | piece # pieces \<Rightarrow> (c # piece) # pieces))"

text \<open>\<^verbatim>\<open>xs[i]\<close>: \<^verbatim>\<open>undefined\<close> (here \<open>None\<close>) out of range.\<close>

definition index :: "'a list \<Rightarrow> nat \<Rightarrow> 'a option" where
  "index xs i = (if i < length xs then Some (xs ! i) else None)"

text \<open>
  \<^verbatim>\<open>image.match(/^data:(.+);base64/)\<close>, reduced to its first capture group, \<open>None\<close>
  for \<^verbatim>\<open>null\<close>. The dot matches any character but a line terminator, so the group lies
  in the first line after \<^verbatim>\<open>data:\<close>; it is not empty, \<^verbatim>\<open>;base64\<close> follows it, and,
  the quantifier being greedy, it is the longest such group.
\<close>

definition is_line_terminator :: "char \<Rightarrow> bool" where
  "is_line_terminator c = (c = CHR 0x0A \<or> c = CHR 0x0D)"

definition match_data_url :: "string \<Rightarrow> string option" where
  "match_data_url s =
     (if take 5 s = ''data:'' then
        (let line = takeWhile (\<lambda>c. \<not> is_line_terminator c) (drop 5 s) in
         case filter (\<lambda>j. take 7 (drop j line) = '';base64'') (rev [1..<Suc (length line)]) of
           [] \<Rightarrow> None
         | j # _ \<Rightarrow> Some (take j line))
      else None)"

text \<open>
  \<^verbatim>\<open>s.replace(/pat/g, rep)\<close> for a pattern without metacharacters: the occurrences of
  \<open>pat\<close> are found from left to right and do not overlap. The counter is the number of
  characters of the current occurrence still to be skipped.
\<close>

fun replace_from :: "nat \<Rightarrow> string \<Rightarrow> string \<Rightarrow> string \<Rightarrow> string" where
  "replace_from k pat rep [] = []"
| "replace_from (Suc k) pat rep (c # cs) = replace_from k pat rep cs"
| "replace_from 0 pat rep (c # cs) =
     (if pat \<noteq> [] \<and> take (length pat) (c # cs) = pat
      then rep @ replace_from (length pat - 1) pat rep cs
      else c # replace_from 0 pat rep cs)"

definition replace_all :: "string \<Rightarrow> string \<Rightarrow> string \<Rightarrow> string" where
  "replace_all pat rep s = replace_from 0 pat rep s"

subsection \<open>utils.js\<close>

definition fileToGenerativePart :: "'r env \<Rightarrow> buffer \<Rightarrow> string \<Rightarrow> generative_part" where
  "fileToGenerativePart env imageBuffer mime =
     \<lparr>inlineData = \<lparr>data = buffer_to_base64 env imageBuffer, mimeType = mime\<rparr>\<rparr>"

text \<open>
  The template literal of \<^verbatim>\<open>analyzeImage\<close>. It has no \<^verbatim>\<open>${...}\<close> placeholder: the
  braces around \<^verbatim>\<open>dict_of_vars_str\<close> are characters of the text.
\<close>

definition prompt_lines :: "string list" where
  \<open>prompt_lines =
  [''    f"You have been given an image with some mathematical expressions, equations, or graphical problems, and you need to solve them. "'',
   ''        f"Note: Use the PEMDAS rule for solving mathematical expressions. PEMDAS stands for the Priority Order: Parentheses, Exponents, Multiplication and Division (from left to right), Addition and Subtraction (from left to right). Parentheses have the highest priority, followed by Exponents, then Multiplication and Division, and lastly Addition and Subtraction. "'',
   ''        f"For example: "'',
   ''        f"Q. 2 + 3 * 4 "'',
   ''        f"(3 * 4) => 12, 2 + 12 = 14. "'',
   ''        f"Q. 2 + 3 + 5 * 4 - 8 / 2 "'',
   ''        f"5 * 4 => 20, 8 / 2 => 4, 2 + 3 => 5, 5 + 20 => 25, 25 - 4 => 21. "'',
   ''        f"YOU CAN HAVE FIVE TYPES OF EQUATIONS/EXPRESSIONS IN THIS IMAGE, AND ONLY ONE CASE SHALL APPLY EVERY TIME: "'',
   ''        f"Following are the cases: "'',
   ''        f"1. Simple mathematical expressions like 2 + 2, 3 * 4, 5 / 6, 7 - 8, etc.: In this case, solve and return the answer in the format of a LIST OF ONE DICT [{{'expr': given expression, 'result': calculated answer}}]. "'',
   ''        f"2. Set of Equations like x^2 + 2x + 1 = 0, 3y + 4x = 0, 5x^2 + 6y + 7 = 12, etc.: In this case, solve for the given variable, and the format should be a COMMA SEPARATED LIST OF DICTS, with dict 1 as {{'expr': 'x', 'result': 2, 'assign': True}} and dict 2 as {{'expr': 'y', 'result': 5, 'assign': True}}. This example assumes x was calculated as 2, and y as 5. Include as many dicts as there are variables. "'',
   ''        f"3. Assigning values to variables like x = 4, y = 5, z = 6, etc.: In this case, assign values to variables and return another key in the dict called {{'assign': True}}, keeping the variable as 'expr' and the value as 'result' in the original dictionary. RETURN AS A LIST OF DICTS. "'',
   ''        f"4. Analyzing Graphical Math problems, which are word problems represented in drawing form, such as cars colliding, trigonometric problems, problems on the Pythagorean theorem, adding runs from a cricket wagon wheel, etc. These will have a drawing representing some scenario and accompanying information with the image. PAY CLOSE ATTENTION TO DIFFERENT COLORS FOR THESE PROBLEMS. You need to return the answer in the format of a LIST OF ONE DICT [{{'expr': given expression, 'result': calculated answer}}]. "'',
   ''        f"5. Detecting Abstract Concepts that a drawing might show, such as love, hate, jealousy, patriotism, or a historic reference to war, invention, discovery, quote, etc. USE THE SAME FORMAT AS OTHERS TO RETURN THE ANSWER, where 'expr' will be the explanation of the drawing, and 'result' will be the abstract concept. "'',
   ''        f"Analyze the equation or expression in this image and return the answer according to the given rules: "'',
   ''        f"Make sure to use extra backslashes for escape characters like '' @ [CHR 0x5C] @ ''f -> '' @ [CHR 0x5C] @ [CHR 0x5C] @ ''f, '' @ [CHR 0x5C] @ ''n -> '' @ [CHR 0x5C] @ [CHR 0x5C] @ ''n, etc. "'',
   ''        f"Here is a dictionary of user-assigned variables. If the given expression has any of these variables, use its actual value from this dictionary accordingly: {dict_of_vars_str}. "'',
   ''        f"DO NOT USE BACKTICKS OR MARKDOWN FORMATTING. "'',
   ''        f"PROPERLY QUOTE THE KEYS AND VALUES IN THE DICTIONARY FOR EASIER PARSING WITH Python's ast.literal_eval."'']\<close>

definition prompt :: string where
  "prompt = concat (map (\<lambda>l. CHR 0x0A # l) prompt_lines) @ [CHR 0x0A] @ ''  ''"

text \<open>The four \<^verbatim>\<open>replace\<close> calls that clean the model's text, in the order of the chain.\<close>

definition clean_response :: "string \<Rightarrow> string" where
  "clean_response responseText =
     replace_all ''False'' ''false''
       (replace_all ''True'' ''true''
         (replace_all [CHR 0x27] [CHR 0x22]
           (replace_all ''```'' []
             (replace_all ''```json'' [] responseText))))"

text \<open>
  \<^verbatim>\<open>analyzeImage\<close>: the result (\<open>Inl\<close> when it throws) and the events, in order. The
  inner \<^verbatim>\<open>try\<close> keeps \<^verbatim>\<open>answers = []\<close> when \<^verbatim>\<open>JSON.parse\<close> throws; the outer one logs
  and throws again.
\<close>

definition analyzeImage :: "'r env \<Rightarrow> buffer \<Rightarrow> jvalue \<Rightarrow> (js_error + jvalue) \<times> event list" where
  "analyzeImage env imageBuffer dictOfVars =
     (let dict_of_vars_str = json_stringify env dictOfVars;
          imagePart = fileToGenerativePart env imageBuffer ''image/jpeg'';
          sent = GenerateContent prompt imagePart
      in case generateContent env prompt imagePart of
           Inl e \<Rightarrow> (Inl e, [sent, ConsoleError ''Error generating content:'' e])
         | Inr result \<Rightarrow>
             (case response_text env result of
                Inl e \<Rightarrow> (Inl e, [sent, ConsoleError ''Error generating content:'' e])
              | Inr responseText \<Rightarrow>
                  (let cleanedResponse = clean_response responseText;
                       logged = ConsoleLog ''Response from Gemini:'' responseText
                   in case json_parse env cleanedResponse of
                        Inl e \<Rightarrow>
                          (Inr (JArr []),
                           [sent, logged,
                            ConsoleError ''Error parsing Gemini response:'' e,
                            ConsoleErrorText ''Cleaned response:'' cleanedResponse])
                      | Inr answers \<Rightarrow> (Inr answers, [sent, logged]))))"

subsection \<open>route.js\<close>

text \<open>The body of the handler's \<^verbatim>\<open>try\<close> after the validation, up to the call's result.\<close>

definition process_image :: "'r env \<Rightarrow> request_value \<Rightarrow> (js_error + jvalue) \<times> event list" where
  "process_image env v =
     (let base64Data = index (split_on CHR '','' (image v)) 1 in
      case match_data_url (image v) of
        None \<Rightarrow> (Inl (TypeError (null_read_message env)), [])
      | Some mime \<Rightarrow>
          (case base64Data of
             None \<Rightarrow> (Inl (TypeError (buffer_arg_message env)), [])
           | Some payload \<Rightarrow>
               (let imageBuffer = buffer_from_base64 env payload in
                case sharp_resize env imageBuffer of
                  Inl e \<Rightarrow> (Inl e, [SharpResize imageBuffer])
                | Inr processedImage \<Rightarrow>
                    (case analyzeImage env processedImage (dict_of_vars v) of
                       (r, events) \<Rightarrow> (r, SharpResize imageBuffer # events)))))"

definition validation_failed :: "jvalue \<Rightarrow> response" where
  "validation_failed details =
     \<lparr>status_code = 400,
      json = [(''message'', JStr ''Validation failed''), (''errors'', details)]\<rparr>"

definition processed :: "jvalue \<Rightarrow> response" where
  "processed responses =
     \<lparr>status_code = 200,
      json = [(''message'', JStr ''Image processed successfully''),
              (''data'', responses),
              (''status'', JStr ''success'')]\<rparr>"

definition internal_error :: "js_error \<Rightarrow> response" where
  "internal_error e =
     \<lparr>status_code = 500,
      json = [(''message'', JStr ''Internal server error''),
              (''status'', JStr ''failure''),
              (''error'', JStr (message e))]\<rparr>"

text \<open>The handler: the response sent for the request body, and the events.\<close>

definition handler :: "'r env \<Rightarrow> jvalue \<Rightarrow> response \<times> event list" where
  "handler env body =
     (case schema_validate env body of
        Inl details \<Rightarrow> (validation_failed details, [])
      | Inr v \<Rightarrow>
          (case process_image env v of
             (Inr responses, events) \<Rightarrow> (processed responses, events)
           | (Inl e, events) \<Rightarrow>
               (internal_error e, events @ [ConsoleError ''Error in /calculate route:'' e])))"

section \<open>The expression validator and the formula registry of the specification\<close>

text \<open>
  The validator (\<^verbatim>\<open>validate_expression\<close> of \<^verbatim>\<open>math_solver.py\<close>) and the formula registry
  (\<^verbatim>\<open>formulas.py\<close>) are named by the repository's README and are not among the source
  files. The definitions of this section follow sections 3, 4.4, 4.6 and 7 of the
  specification.
\<close>

text \<open>
  Modelled from the spec: the reason carried by \<^verbatim>\<open>InvalidParameter(name, reason)\<close> of the
  missing registry, one for each of the two requirements of section 4.6 on lengths, radii
  and angles.
\<close>

datatype Reason = NotStrictlyPositive | AngleOutOfRange

text \<open>
  Modelled from the spec: the error kinds of section 7 (the source of the validator and of
  the registry is missing). \<open>MissingParameter\<close> carries the parameter's name and
  \<open>InvalidParameter\<close> the name and the reason. \<open>EmptyExpression\<close> is the outcome of the
  first check of section 4.4, for which the specification names no kind.
\<close>

datatype ErrorKind =
    EmptyExpression
  | InvalidCharacter
  | UnbalancedParentheses
  | MalformedOperatorSequence
  | EmptyGroup
  | ConflictingLabel
  | UnresolvedVariable
  | UnknownShape
  | UnsupportedCalculation
  | MissingParameter string
  | InvalidParameter string Reason
  | SolveBackendError
  | BackendUnavailable

text \<open>Modelled from the spec: the results \<^verbatim>\<open>Ok | Err(ErrorKind)\<close> of the missing functions.\<close>

datatype 'a outcome = Ok 'a | Err ErrorKind

subsection \<open>Section 4.4: the expression validator\<close>

text \<open>
  Modelled from the spec: the whitespace of the missing validator (what trimming removes,
  and a class of the whitelist): the space and the control characters from tab to carriage
  return.
\<close>

definition is_space :: "char \<Rightarrow> bool" where
  "is_space c = (c \<in> {CHR '' '', CHR 0x09, CHR 0x0A, CHR 0x0B, CHR 0x0C, CHR 0x0D})"

text \<open>Modelled from the spec: the digits of the whitelist of the missing validator.\<close>

definition is_digit :: "char \<Rightarrow> bool" where
  "is_digit c = (c \<in> set ''0123456789'')"

text \<open>
  Modelled from the spec: the "letters for function names and variables" of the whitelist of
  the missing validator.
\<close>

definition is_letter :: "char \<Rightarrow> bool" where
  "is_letter c = (c \<in> set ''abcdefghijklmnopqrstuvwxyzABCDEFGHIJKLMNOPQRSTUVWXYZ'')"

text \<open>Modelled from the spec: the binary operators that check 4 of the missing validator reads.\<close>

definition is_operator :: "char \<Rightarrow> bool" where
  "is_operator c = (c \<in> set ''+-*/^'')"

text \<open>
  Modelled from the spec: the whitelist of check 2 of the missing validator, "digits,
  \<^verbatim>\<open>+ - * / ^ ( ) . = ,\<close> letters for function names and variables, whitespace".
\<close>

definition allowed :: "char \<Rightarrow> bool" where
  "allowed c = (is_digit c \<or> c \<in> set ''+-*/^().=,'' \<or> is_letter c \<or> is_space c)"

text \<open>Modelled from the spec: the trimming of check 1 of the missing validator.\<close>

definition trim :: "string \<Rightarrow> string" where
  "trim s = rev (dropWhile is_space (rev (dropWhile is_space s)))"

text \<open>
  Modelled from the spec: check 3 of the missing validator, "a running depth counter over
  the scan must never go negative and must return to zero at the end". The first argument
  is the counter.
\<close>

fun balanced_from :: "int \<Rightarrow> string \<Rightarrow> bool" where
  "balanced_from d [] = (d = 0)"
| "balanced_from d (c # cs) =
     (let d' = (if c = CHR ''('' then d + 1 else if c = CHR '')'' then d - 1 else d)
      in if d' < 0 then False else balanced_from d' cs)"

text \<open>
  Modelled from the spec: check 4 of the missing validator. The sequence is malformed when an
  operator is followed by an operator other than a (unary) minus or by \<^verbatim>\<open>)\<close>, or ends the
  string.
\<close>

fun operators_well_formed :: "string \<Rightarrow> bool" where
  "operators_well_formed [] = True"
| "operators_well_formed [c] = (\<not> is_operator c)"
| "operators_well_formed (c # d # cs) =
     (if is_operator c \<and> (d = CHR '')'' \<or> (is_operator d \<and> d \<noteq> CHR ''-''))
      then False else operators_well_formed (d # cs))"

text \<open>Modelled from the spec: check 5 of the missing validator, an empty group \<^verbatim>\<open>()\<close>.\<close>

fun has_empty_group :: "string \<Rightarrow> bool" where
  "has_empty_group (c # d # cs) = (if c = CHR ''('' \<and> d = CHR '')'' then True else has_empty_group (d # cs))"
| "has_empty_group cs = False"

text \<open>
  Modelled from the spec: \<^verbatim>\<open>validate(expr) -> Ok | Err(ErrorKind)\<close> of section 4.4, whose
  source is missing: the five checks "in this order (first failure wins)".
\<close>

definition validate :: "string \<Rightarrow> unit outcome" where
  "validate expr =
     (if trim expr = [] then Err EmptyExpression
      else if \<not> list_all allowed expr then Err InvalidCharacter
      else if \<not> balanced_from 0 expr then Err UnbalancedParentheses
      else if \<not> operators_well_formed expr then Err MalformedOperatorSequence
      else if has_empty_group expr then Err EmptyGroup
      else Ok ())"

text \<open>
  Modelled from the spec: the depth that the counter of check 3 of the missing validator
  has reached after a string, the number of \<^verbatim>\<open>(\<close> minus the number of \<^verbatim>\<open>)\<close> in it.
\<close>

definition depth :: "string \<Rightarrow> int" where
  "depth s = int (count_list s CHR ''('') - int (count_list s CHR '')'')"

text \<open>
  Modelled from the spec: the words about check 3 of the missing validator, "the running
  depth counter goes negative at some point or does not return to zero at the end", stated
  on the prefixes of the string and not by a scan.
\<close>

definition unbalanced :: "string \<Rightarrow> bool" where
  "unbalanced s = ((\<exists>k \<in> {0..length s}. depth (take k s) < 0) \<or> depth s \<noteq> 0)"

subsection \<open>Section 4.6: the geometric formula registry\<close>

text \<open>
  Modelled from the spec: the calculation kinds \<^verbatim>\<open>{area, perimeter, volume, surfaceArea}\<close> of
  the missing registry (section 3).
\<close>

datatype CalcType = area | perimeter | volume | surfaceArea

text \<open>Modelled from the spec: \<^verbatim>\<open>ShapeSpec\<close> of section 3 (the registry's source is missing).\<close>

record ShapeSpec =
  name :: string
  requiredParams :: "string list"
  calcTypes :: "CalcType list"

text \<open>
  Modelled from the spec: \<^verbatim>\<open>CalcRequest\<close> of section 3 (the registry's source is missing);
  the mapping from names to numbers is the list of its entries.
\<close>

record CalcRequest =
  shapeName :: string
  calcType :: CalcType
  params :: "(string \<times> real) list"

text \<open>
  Modelled from the spec: what a parameter of the missing registry represents, a length or
  radius, an angle, or something else (section 4.6 asks for positivity of the first two).
\<close>

datatype Dimension = Length | Angle | Other

text \<open>
  Modelled from the spec: the static catalog of the missing registry and what belongs to
  it, which the specification does not list; they are parameters. \<open>dimension\<close> tells what
  a parameter of a shape represents; \<open>fullTurn\<close> is the upper end of the range of angles
  (\<open>2\<pi>\<close> or 360); \<open>formula\<close> is the lookup of
  \<^verbatim>\<open>(shapeName, calcType) -> function(params) -> number\<close>.
\<close>

record registry =
  catalog :: "ShapeSpec list"
  dimension :: "string \<Rightarrow> string \<Rightarrow> Dimension"
  fullTurn :: real
  formula :: "string \<Rightarrow> CalcType \<Rightarrow> (string \<rightharpoonup> real) \<Rightarrow> real"

text \<open>
  Modelled from the spec: the last validation of section 4.6 (source missing), "parameters
  representing lengths/radii/angles must be strictly positive (and angle parameters, where
  used, within \<open>(0, 2\<pi>)\<close> or (0, 360) consistently)".
\<close>

definition fault :: "registry \<Rightarrow> string \<Rightarrow> string \<times> real \<Rightarrow> Reason option" where
  "fault reg shape p =
     (case dimension reg shape (fst p) of
        Length \<Rightarrow> (if snd p \<le> 0 then Some NotStrictlyPositive else None)
      | Angle \<Rightarrow>
          (if snd p \<le> 0 then Some NotStrictlyPositive
           else if fullTurn reg \<le> snd p then Some AngleOutOfRange
           else None)
      | Other \<Rightarrow> None)"

text \<open>
  Modelled from the spec: the positivity validation of the missing registry over the
  parameters of a request, in their order: the first parameter at fault, with the reason.
\<close>

fun first_fault :: "registry \<Rightarrow> string \<Rightarrow> (string \<times> real) list \<Rightarrow> (string \<times> Reason) option" where
  "first_fault reg shape [] = None"
| "first_fault reg shape (p # ps) =
     (case fault reg shape p of
        Some reason \<Rightarrow> Some (fst p, reason)
      | None \<Rightarrow> first_fault reg shape ps)"

text \<open>
  Modelled from the spec: \<^verbatim>\<open>calculate(CalcRequest) -> CalcResult\<close> of section 4.6, whose
  source is missing: the validations before dispatch in the order the specification gives
  them (shape, calculation type, presence of the required parameters, positivity), then
  the lookup of the formula.
\<close>

definition calculate :: "registry \<Rightarrow> CalcRequest \<Rightarrow> real outcome" where
  "calculate reg req =
     (case find (\<lambda>s. name s = shapeName req) (catalog reg) of
        None \<Rightarrow> Err UnknownShape
      | Some spec \<Rightarrow>
          if calcType req \<notin> set (calcTypes spec) then Err UnsupportedCalculation
          else
            (case filter (\<lambda>n. map_of (params req) n = None) (requiredParams spec) of
               n # _ \<Rightarrow> Err (MissingParameter n)
             | [] \<Rightarrow>
                 (case first_fault reg (shapeName req) (params req) of
                    Some (n, reason) \<Rightarrow> Err (InvalidParameter n reason)
                  | None \<Rightarrow>
                      Ok (formula reg (shapeName req) (calcType req) (map_of (params req))))))"

section \<open>Sample runs\<close>

text \<open>
  Concrete environments and request bodies, at which the theorems below are evaluated. The
  sample schema asks for a string \<^verbatim>\<open>image\<close> and for \<^verbatim>\<open>dict_of_vars\<close>. The stand-ins for
  \<^verbatim>\<open>JSON.parse\<close>, \<^verbatim>\<open>JSON.stringify\<close>, \<^verbatim>\<open>Buffer.from\<close> and \<^verbatim>\<open>Buffer.toString\<close> agree with the
  built-ins on the values they are applied to here. The outcome of the image library and
  that of the model are arguments of \<open>sample_env\<close>; the object that \<^verbatim>\<open>generateContent\<close>
  resolves to is represented by what its \<^verbatim>\<open>response.text()\<close> does.
\<close>

definition sample_schema :: "jvalue \<Rightarrow> jvalue + request_value" where
  "sample_schema body =
     (case body of
        JObj members \<Rightarrow>
          (case (map_of members ''image'', map_of members ''dict_of_vars'') of
             (Some (JStr s), Some d) \<Rightarrow> Inr \<lparr>image = s, dict_of_vars = d\<rparr>
           | _ \<Rightarrow> Inl (JArr [JStr ''invalid request body'']))
      | _ \<Rightarrow> Inl (JArr [JStr ''invalid request body'']))"

definition sample_parse :: "string \<Rightarrow> js_error + jvalue" where
  \<open>sample_parse s =
     (if s = ''[{"expr": "2 + 3 * 4", "result": 14}]''
      then Inr (JArr [JObj [(''expr'', JStr ''2 + 3 * 4''), (''result'', JNum 14)]])
      else Inl (SyntaxError ''Unexpected token''))\<close>

definition sample_stringify :: "jvalue \<Rightarrow> string" where
  \<open>sample_stringify d =
     (if d = JObj [(''x'', JNum 4)] then ''{"x":4}''
      else if d = JObj [(''x'', JNum 1), (''x'', JNum 2)] then ''{"x":2}''
      else ''{}'')\<close>

definition sample_decode :: "string \<Rightarrow> buffer" where
  "sample_decode s = (if s = ''iVA='' then [0x89, 0x50] else [])"

definition sample_encode :: "buffer \<Rightarrow> string" where
  "sample_encode b = (if b = [1, 2] then ''AQI='' else [])"

definition sample_env ::
  "(js_error + buffer) \<Rightarrow> (js_error + (js_error + string)) \<Rightarrow> (js_error + string) env" where
  "sample_env resized reply =
     \<lparr>schema_validate = sample_schema,
      buffer_from_base64 = sample_decode,
      sharp_resize = (\<lambda>b. resized),
      buffer_to_base64 = sample_encode,
      json_stringify = sample_stringify,
      generateContent = (\<lambda>p part. reply),
      response_text = (\<lambda>r. r),
      json_parse = sample_parse,
      null_read_message = ''Cannot read properties of null'',
      buffer_arg_message = ''The first argument must be of type string''\<rparr>"

definition sample_body :: "string \<Rightarrow> jvalue \<Rightarrow> jvalue" where
  "sample_body img vars = JObj [(''image'', JStr img), (''dict_of_vars'', vars)]"

text \<open>The model answers in the format the prompt asks for.\<close>

definition answer_env :: "(js_error + string) env" where
  "answer_env = sample_env (Inr [1, 2]) (Inr (Inr ''[{'expr': '2 + 3 * 4', 'result': 14}]''))"

text \<open>The model answers with a sentence, which is not JSON.\<close>

definition prose_env :: "(js_error + string) env" where
  "prose_env = sample_env (Inr [1, 2]) (Inr (Inr ''I cannot read this image.''))"

text \<open>The image library rejects the buffer; the model call rejects; \<^verbatim>\<open>text()\<close> throws.\<close>

definition sharp_fails_env :: "(js_error + string) env" where
  "sharp_fails_env =
     sample_env (Inl (Error ''Input buffer contains unsupported image format'')) (Inr (Inr ''[]''))"

definition backend_fails_env :: "(js_error + string) env" where
  "backend_fails_env = sample_env (Inr [1, 2]) (Inl (Error ''fetch failed''))"

definition blocked_env :: "(js_error + string) env" where
  "blocked_env = sample_env (Inr [1, 2]) (Inr (Inl (Error ''Response was blocked'')))"

definition png_body :: jvalue where
  "png_body = sample_body ''data:image/png;base64,iVA='' (JObj [(''x'', JNum 4)])"

definition gif_body :: jvalue where
  "gif_body = sample_body ''data:image/gif;base64,iVA='' (JObj [(''x'', JNum 4)])"

text \<open>
  A request whose \<^verbatim>\<open>dict_of_vars\<close> names \<^verbatim>\<open>x\<close> twice, with two values: the document
  \<^verbatim>\<open>{"x": 1, "x": 2}\<close>, as it is written in the request.
\<close>

definition duplicate_body :: jvalue where
  "duplicate_body =
     sample_body ''data:image/png;base64,iVA='' (JObj [(''x'', JNum 1), (''x'', JNum 2)])"

definition jpeg_part :: generative_part where
  "jpeg_part = \<lparr>inlineData = \<lparr>data = ''AQI='', mimeType = ''image/jpeg''\<rparr>\<rparr>"

text \<open>
  Modelled from the spec: sample formulas for the missing registry, those the
  specification gives: the area of the rectangle (\<open>l\<sqdot>w\<close>), the area of the circle
  (\<open>\<pi>\<sqdot>r\<^sup>2\<close>) and the surface area of the cylinder (\<open>2\<pi>\<sqdot>r\<sqdot>(r+h)\<close>).
\<close>

definition sample_formula :: "string \<Rightarrow> CalcType \<Rightarrow> (string \<rightharpoonup> real) \<Rightarrow> real" where
  "sample_formula shape calc ps =
     (if shape = ''Rectangle'' \<and> calc = area then the (ps ''l'') * the (ps ''w'')
      else if shape = ''Circle'' \<and> calc = area then pi * (the (ps ''r''))\<^sup>2
      else if shape = ''Cylinder'' \<and> calc = surfaceArea
        then 2 * pi * the (ps ''r'') * (the (ps ''r'') + the (ps ''h''))
      else 0)"

text \<open>
  Modelled from the spec: a sample of the missing catalog, with these three shapes; the
  parameters \<^verbatim>\<open>l\<close>, \<^verbatim>\<open>w\<close>, \<^verbatim>\<open>r\<close> and \<^verbatim>\<open>h\<close> are lengths.
\<close>

definition sample_registry :: registry where
  "sample_registry =
     \<lparr>catalog =
        [\<lparr>name = ''Rectangle'', requiredParams = [''l'', ''w''], calcTypes = [area]\<rparr>,
         \<lparr>name = ''Circle'', requiredParams = [''r''], calcTypes = [area]\<rparr>,
         \<lparr>name = ''Cylinder'', requiredParams = [''r'', ''h''], calcTypes = [surfaceArea]\<rparr>],
      dimension = (\<lambda>shape n. if n \<in> set [''l'', ''w'', ''r'', ''h''] then Length else Other),
      fullTurn = 360,
      formula = sample_formula\<rparr>"

section \<open>Evaluation of the sample runs\<close>

lemmas route_defs = handler_def process_image_def analyzeImage_def fileToGenerativePart_def

lemmas response_defs = validation_failed_def processed_def internal_error_def

lemmas scenario_defs = answer_env_def prose_env_def sharp_fails_env_def backend_fails_env_def
  blocked_env_def png_body_def gif_body_def duplicate_body_def jpeg_part_def

lemma sample_match_png: "match_data_url ''data:image/png;base64,iVA='' = Some ''image/png''"
  by code_simp

lemma sample_match_gif: "match_data_url ''data:image/gif;base64,iVA='' = Some ''image/gif''"
  by code_simp

lemma sample_match_raw: "match_data_url ''iVA='' = None"
  by code_simp

lemma sample_match_bare: "match_data_url ''data:image/png;base64'' = Some ''image/png''"
  by code_simp

lemma sample_clean_answer:
  \<open>clean_response ''[{'expr': '2 + 3 * 4', 'result': 14}]'' = ''[{"expr": "2 + 3 * 4", "result": 14}]''\<close>
  by code_simp

lemma sample_clean_prose:
  "clean_response ''I cannot read this image.'' = ''I cannot read this image.''"
  by code_simp

lemmas sample_simps = sample_env_def sample_schema_def sample_body_def sample_parse_def index_def
  sample_decode_def sample_encode_def
  sample_match_png sample_match_gif sample_match_raw sample_match_bare
  sample_clean_answer sample_clean_prose

lemma answer_run:
  "handler answer_env png_body =
     (processed (JArr [JObj [(''expr'', JStr ''2 + 3 * 4''), (''result'', JNum 14)]]),
      [SharpResize [0x89, 0x50], GenerateContent prompt jpeg_part,
       ConsoleLog ''Response from Gemini:'' ''[{'expr': '2 + 3 * 4', 'result': 14}]''])"
  by (simp add: route_defs scenario_defs sample_simps Let_def)

section \<open>Properties of the route\<close>

text \<open>
  C1, as stated, fails. The model's reply is a sentence, \<^verbatim>\<open>JSON.parse\<close> throws on it, and the
  inner \<^verbatim>\<open>catch\<close> of \<^verbatim>\<open>analyzeImage\<close> only logs: the request completes with status 200 and
  \<^verbatim>\<open>status: "success"\<close>, carrying the empty list.
\<close>

theorem parse_failure_reported_as_success:
  "response_text prose_env (Inr ''I cannot read this image.'') = Inr ''I cannot read this image.''
   \<and> json_parse prose_env (clean_response ''I cannot read this image.'')
       = Inl (SyntaxError ''Unexpected token'')
   \<and> fst (handler prose_env png_body) = processed (JArr [])
   \<and> status_code (fst (handler prose_env png_body)) = 200
   \<and> map_of (json (fst (handler prose_env png_body))) ''status'' = Some (JStr ''success'')"
  by (simp add: route_defs scenario_defs sample_simps Let_def response_defs)

text \<open>
  C1, amended. Every request is answered with one of three responses: the
  validation failure (400), the success (200) or the internal error (500). When the image
  was processed and the model replied with a text, the request succeeds: with the parsed
  answers when \<^verbatim>\<open>JSON.parse\<close> accepts the cleaned text, and with the empty list when it
  throws.
\<close>

theorem request_outcomes:
  "((\<exists>details. fst (handler env body) = validation_failed details)
      \<or> (\<exists>responses. fst (handler env body) = processed responses)
      \<or> (\<exists>e. fst (handler env body) = internal_error e))
   \<and> (schema_validate env body = Inr v
        \<and> match_data_url (image v) = Some mime
        \<and> index (split_on CHR '','' (image v)) 1 = Some payload
        \<and> sharp_resize env (buffer_from_base64 env payload) = Inr processedImage
        \<and> generateContent env prompt (fileToGenerativePart env processedImage ''image/jpeg'')
            = Inr result
        \<and> response_text env result = Inr responseText
      \<longrightarrow> (\<forall>answers. json_parse env (clean_response responseText) = Inr answers
              \<longrightarrow> fst (handler env body) = processed answers)
          \<and> (\<forall>e. json_parse env (clean_response responseText) = Inl e
              \<longrightarrow> fst (handler env body) = processed (JArr [])))"
proof (intro conjI impI)
  show "(\<exists>details. fst (handler env body) = validation_failed details)
      \<or> (\<exists>responses. fst (handler env body) = processed responses)
      \<or> (\<exists>e. fst (handler env body) = internal_error e)"
    by (cases "schema_validate env body";
        cases "process_image env (projr (schema_validate env body))";
        cases "fst (process_image env (projr (schema_validate env body)))")
       (auto simp: handler_def)
next
  assume "schema_validate env body = Inr v
        \<and> match_data_url (image v) = Some mime
        \<and> index (split_on CHR '','' (image v)) 1 = Some payload
        \<and> sharp_resize env (buffer_from_base64 env payload) = Inr processedImage
        \<and> generateContent env prompt (fileToGenerativePart env processedImage ''image/jpeg'')
            = Inr result
        \<and> response_text env result = Inr responseText"
  then show "\<forall>answers. json_parse env (clean_response responseText) = Inr answers
              \<longrightarrow> fst (handler env body) = processed answers"
    and "\<forall>e. json_parse env (clean_response responseText) = Inl e
              \<longrightarrow> fst (handler env body) = processed (JArr [])"
    by (simp_all add: route_defs Let_def)
qed

theorem request_outcomes_witness:
  "fst (handler prose_env gif_body) = processed (JArr [])
   \<and> fst (handler answer_env gif_body)
       = processed (JArr [JObj [(''expr'', JStr ''2 + 3 * 4''), (''result'', JNum 14)]])"
  using request_outcomes [of prose_env gif_body
      "\<lparr>image = ''data:image/gif;base64,iVA='', dict_of_vars = JObj [(''x'', JNum 4)]\<rparr>"
      "''image/gif''" "''iVA=''" "[1, 2]"
      "Inr ''I cannot read this image.''" "''I cannot read this image.''"]
    request_outcomes [of answer_env gif_body
      "\<lparr>image = ''data:image/gif;base64,iVA='', dict_of_vars = JObj [(''x'', JNum 4)]\<rparr>"
      "''image/gif''" "''iVA=''" "[1, 2]"
      "Inr ''[{'expr': '2 + 3 * 4', 'result': 14}]''" "''[{'expr': '2 + 3 * 4', 'result': 14}]''"]
  by (simp add: scenario_defs sample_simps fileToGenerativePart_def)

text \<open>
  C2. When \<^verbatim>\<open>ImageDataSchema.validate\<close> reports an error, the handler answers at once with
  status 400 and the error's details, and nothing else has happened: no event, so neither
  the image library nor the model was called.
\<close>

theorem validation_error_fails_fast:
  assumes "schema_validate env body = Inl details"
  shows "handler env body = (validation_failed details, [])
         \<and> status_code (fst (handler env body)) = 400"
  using assms by (simp add: handler_def validation_failed_def)

theorem validation_error_fails_fast_witness:
  "schema_validate answer_env (JObj []) = Inl (JArr [JStr ''invalid request body''])
   \<and> handler answer_env (JObj []) = (validation_failed (JArr [JStr ''invalid request body'']), [])"
proof -
  have rejected: "schema_validate answer_env (JObj []) = Inl (JArr [JStr ''invalid request body''])"
    by (simp add: scenario_defs sample_simps)
  from validation_error_fails_fast [OF rejected] rejected show ?thesis
    by simp
qed

text \<open>
  C3, as stated, fails. The \<^verbatim>\<open>SyntaxError\<close> that \<^verbatim>\<open>JSON.parse\<close> raises while the reply is
  processed is caught inside \<^verbatim>\<open>analyzeImage\<close> and logged; it never reaches the handler's
  \<^verbatim>\<open>catch\<close> and the response is not a failure.
\<close>

theorem parse_error_not_mapped_to_failure:
  "json_parse prose_env (clean_response ''I cannot read this image.'')
     = Inl (SyntaxError ''Unexpected token'')
   \<and> handler prose_env gif_body =
       (processed (JArr []),
        [SharpResize [0x89, 0x50], GenerateContent prompt jpeg_part,
         ConsoleLog ''Response from Gemini:'' ''I cannot read this image.'',
         ConsoleError ''Error parsing Gemini response:'' (SyntaxError ''Unexpected token''),
         ConsoleErrorText ''Cleaned response:'' ''I cannot read this image.''])
   \<and> fst (handler prose_env gif_body) \<noteq> internal_error (SyntaxError ''Unexpected token'')"
  by (simp add: route_defs scenario_defs sample_simps Let_def response_defs)

text \<open>
  C3, amended. Once the schema has accepted the request, every error that is thrown
  outside the inner \<^verbatim>\<open>try\<close> of \<^verbatim>\<open>analyzeImage\<close> is answered with the 500 failure response
  that carries its message: the \<^verbatim>\<open>TypeError\<close> of reading \<^verbatim>\<open>[1]\<close> of a \<^verbatim>\<open>null\<close> match, the
  \<^verbatim>\<open>TypeError\<close> of \<^verbatim>\<open>Buffer.from(undefined)\<close>, a rejection of the image library, a rejection
  of \<^verbatim>\<open>generateContent\<close>, an error thrown by \<^verbatim>\<open>response.text()\<close>. The handler is a total
  function to responses: no error leaves it.
\<close>

theorem thrown_errors_give_500:
  assumes "schema_validate env body = Inr v"
  shows "(match_data_url (image v) = None
            \<longrightarrow> fst (handler env body) = internal_error (TypeError (null_read_message env)))
       \<and> (match_data_url (image v) \<noteq> None \<and> index (split_on CHR '','' (image v)) 1 = None
            \<longrightarrow> fst (handler env body) = internal_error (TypeError (buffer_arg_message env)))
       \<and> (match_data_url (image v) \<noteq> None \<and> index (split_on CHR '','' (image v)) 1 = Some payload
            \<longrightarrow> (sharp_resize env (buffer_from_base64 env payload) = Inl e
                   \<longrightarrow> fst (handler env body) = internal_error e)
               \<and> (sharp_resize env (buffer_from_base64 env payload) = Inr processedImage
                   \<longrightarrow> (generateContent env prompt
                            (fileToGenerativePart env processedImage ''image/jpeg'') = Inl e
                          \<longrightarrow> fst (handler env body) = internal_error e)
                      \<and> (generateContent env prompt
                            (fileToGenerativePart env processedImage ''image/jpeg'') = Inr result
                            \<and> response_text env result = Inl e
                          \<longrightarrow> fst (handler env body) = internal_error e)))"
  using assms by (auto simp: route_defs Let_def)

theorem thrown_errors_give_500_witness:
  "fst (handler answer_env (sample_body ''iVA='' (JObj [])))
     = internal_error (TypeError ''Cannot read properties of null'')
   \<and> fst (handler answer_env (sample_body ''data:image/png;base64'' (JObj [])))
     = internal_error (TypeError ''The first argument must be of type string'')
   \<and> fst (handler sharp_fails_env png_body)
     = internal_error (Error ''Input buffer contains unsupported image format'')
   \<and> fst (handler backend_fails_env png_body) = internal_error (Error ''fetch failed'')
   \<and> fst (handler blocked_env png_body) = internal_error (Error ''Response was blocked'')"
proof -
  note at_payload = thrown_errors_give_500 [where payload = "''iVA=''" and processedImage = "[1, 2]"]
  have "fst (handler answer_env (sample_body ''iVA='' (JObj [])))
          = internal_error (TypeError ''Cannot read properties of null'')"
    using at_payload [of answer_env "sample_body ''iVA='' (JObj [])"
        "\<lparr>image = ''iVA='', dict_of_vars = JObj []\<rparr>"]
    by (simp add: scenario_defs sample_simps)
  moreover have "fst (handler answer_env (sample_body ''data:image/png;base64'' (JObj [])))
          = internal_error (TypeError ''The first argument must be of type string'')"
    using at_payload [of answer_env "sample_body ''data:image/png;base64'' (JObj [])"
        "\<lparr>image = ''data:image/png;base64'', dict_of_vars = JObj []\<rparr>"]
    by (simp add: scenario_defs sample_simps)
  moreover have "fst (handler sharp_fails_env png_body)
          = internal_error (Error ''Input buffer contains unsupported image format'')"
    using at_payload [of sharp_fails_env png_body
        "\<lparr>image = ''data:image/png;base64,iVA='', dict_of_vars = JObj [(''x'', JNum 4)]\<rparr>"
        "Error ''Input buffer contains unsupported image format''"]
    by (simp add: scenario_defs sample_simps)
  moreover have "fst (handler backend_fails_env png_body) = internal_error (Error ''fetch failed'')"
    using at_payload [of backend_fails_env png_body
        "\<lparr>image = ''data:image/png;base64,iVA='', dict_of_vars = JObj [(''x'', JNum 4)]\<rparr>"
        "Error ''fetch failed''"]
    by (simp add: scenario_defs sample_simps fileToGenerativePart_def)
  moreover have "fst (handler blocked_env png_body) = internal_error (Error ''Response was blocked'')"
    using at_payload [of blocked_env png_body
        "\<lparr>image = ''data:image/png;base64,iVA='', dict_of_vars = JObj [(''x'', JNum 4)]\<rparr>"
        "Error ''Response was blocked''" "Inl (Error ''Response was blocked'')"]
    by (simp add: scenario_defs sample_simps fileToGenerativePart_def)
  ultimately show ?thesis by simp
qed

text \<open>
  C4, as stated, fails. The status field of a success is \<^verbatim>\<open>"success"\<close>, not \<^verbatim>\<open>"ok"\<close>; that
  of a failure is \<^verbatim>\<open>"failure"\<close>, not \<^verbatim>\<open>"error"\<close>, and the failure has no \<^verbatim>\<open>errorKind\<close>.
\<close>

theorem status_is_success_or_failure:
  "map_of (json (fst (handler answer_env png_body))) ''status'' = Some (JStr ''success'')
   \<and> map_of (json (fst (handler answer_env png_body))) ''status'' \<noteq> Some (JStr ''ok'')
   \<and> map_of (json (fst (handler backend_fails_env png_body))) ''status'' = Some (JStr ''failure'')
   \<and> map_of (json (fst (handler backend_fails_env png_body))) ''status'' \<noteq> Some (JStr ''error'')
   \<and> map_of (json (fst (handler backend_fails_env png_body))) ''errorKind'' = None"
  by (simp add: route_defs scenario_defs sample_simps Let_def response_defs)

text \<open>
  C4, amended. Every response has one of three shapes. The validation failure has status
  code 400, no status field, the message \<^verbatim>\<open>"Validation failed"\<close> and the schema's details
  under \<^verbatim>\<open>errors\<close>. The success has status code 200, the status field \<^verbatim>\<open>"success"\<close>, a
  message and the answers under \<^verbatim>\<open>data\<close>: the value that the body of the \<^verbatim>\<open>try\<close> ended
  with. The internal error has status code 500, the status field \<^verbatim>\<open>"failure"\<close>, the
  message \<^verbatim>\<open>"Internal server error"\<close> and, under \<^verbatim>\<open>error\<close>, the message of the caught error:
  the error that the body of the \<^verbatim>\<open>try\<close> threw. These are all the fields. No response has a
  field \<^verbatim>\<open>errorKind\<close>.
\<close>

theorem response_shapes:
  "(status_code (fst (handler env body)) = 400
      \<and> map_of (json (fst (handler env body))) ''status'' = None
      \<and> map_of (json (fst (handler env body))) ''message'' = Some (JStr ''Validation failed'')
      \<and> (\<exists>details. schema_validate env body = Inl details
            \<and> map_of (json (fst (handler env body))) ''errors'' = Some details
            \<and> json (fst (handler env body))
                = [(''message'', JStr ''Validation failed''), (''errors'', details)])
    \<or> status_code (fst (handler env body)) = 200
      \<and> map_of (json (fst (handler env body))) ''status'' = Some (JStr ''success'')
      \<and> map_of (json (fst (handler env body))) ''message''
          = Some (JStr ''Image processed successfully'')
      \<and> (\<exists>v responses. schema_validate env body = Inr v
            \<and> fst (process_image env v) = Inr responses
            \<and> map_of (json (fst (handler env body))) ''data'' = Some responses
            \<and> json (fst (handler env body))
                = [(''message'', JStr ''Image processed successfully''),
                   (''data'', responses),
                   (''status'', JStr ''success'')])
    \<or> status_code (fst (handler env body)) = 500
      \<and> map_of (json (fst (handler env body))) ''status'' = Some (JStr ''failure'')
      \<and> map_of (json (fst (handler env body))) ''message'' = Some (JStr ''Internal server error'')
      \<and> (\<exists>v e. schema_validate env body = Inr v
            \<and> fst (process_image env v) = Inl e
            \<and> map_of (json (fst (handler env body))) ''error'' = Some (JStr (message e))
            \<and> json (fst (handler env body))
                = [(''message'', JStr ''Internal server error''),
                   (''status'', JStr ''failure''),
                   (''error'', JStr (message e))]))
   \<and> map_of (json (fst (handler env body))) ''errorKind'' = None"
proof (cases "schema_validate env body")
  case (Inl details)
  then show ?thesis by (simp add: handler_def response_defs)
next
  case accepted: (Inr v)
  obtain r events where run: "process_image env v = (r, events)"
    by (cases "process_image env v")
  show ?thesis
  proof (cases r)
    case (Inl e)
    with accepted run have "fst (handler env body) = internal_error e"
      by (simp add: handler_def)
    with accepted run Inl show ?thesis by (simp add: internal_error_def)
  next
    case (Inr responses)
    with accepted run have "fst (handler env body) = processed responses"
      by (simp add: handler_def)
    with accepted run Inr show ?thesis by (simp add: processed_def)
  qed
qed

theorem response_shapes_witness:
  "json (fst (handler answer_env (JObj [])))
     = [(''message'', JStr ''Validation failed''), (''errors'', JArr [JStr ''invalid request body''])]
   \<and> map_of (json (fst (handler answer_env (JObj [])))) ''status'' = None
   \<and> json (fst (handler answer_env png_body))
     = [(''message'', JStr ''Image processed successfully''),
        (''data'', JArr [JObj [(''expr'', JStr ''2 + 3 * 4''), (''result'', JNum 14)]]),
        (''status'', JStr ''success'')]
   \<and> json (fst (handler backend_fails_env png_body))
     = [(''message'', JStr ''Internal server error''),
        (''status'', JStr ''failure''),
        (''error'', JStr ''fetch failed'')]
   \<and> map_of (json (fst (handler backend_fails_env png_body))) ''errorKind'' = None"
proof -
  have validation: "schema_validate answer_env (JObj []) = Inl (JArr [JStr ''invalid request body''])"
    by (simp add: scenario_defs sample_simps)
  have accepted: "schema_validate answer_env png_body
      = Inr \<lparr>image = ''data:image/png;base64,iVA='', dict_of_vars = JObj [(''x'', JNum 4)]\<rparr>"
    and accepted': "schema_validate backend_fails_env png_body
      = Inr \<lparr>image = ''data:image/png;base64,iVA='', dict_of_vars = JObj [(''x'', JNum 4)]\<rparr>"
    by (simp_all add: scenario_defs sample_simps)
  have answers: "fst (process_image answer_env
        \<lparr>image = ''data:image/png;base64,iVA='', dict_of_vars = JObj [(''x'', JNum 4)]\<rparr>)
      = Inr (JArr [JObj [(''expr'', JStr ''2 + 3 * 4''), (''result'', JNum 14)]])"
    and thrown: "fst (process_image backend_fails_env
        \<lparr>image = ''data:image/png;base64,iVA='', dict_of_vars = JObj [(''x'', JNum 4)]\<rparr>)
      = Inl (Error ''fetch failed'')"
    by (simp_all add: process_image_def analyzeImage_def fileToGenerativePart_def
        scenario_defs sample_simps Let_def)
  from response_shapes [of answer_env "JObj []"] validation
  have first: "json (fst (handler answer_env (JObj [])))
        = [(''message'', JStr ''Validation failed''), (''errors'', JArr [JStr ''invalid request body''])]
      \<and> map_of (json (fst (handler answer_env (JObj [])))) ''status'' = None"
    by auto
  from response_shapes [of answer_env png_body] accepted answers
  have second: "json (fst (handler answer_env png_body))
        = [(''message'', JStr ''Image processed successfully''),
           (''data'', JArr [JObj [(''expr'', JStr ''2 + 3 * 4''), (''result'', JNum 14)]]),
           (''status'', JStr ''success'')]"
    by auto
  from response_shapes [of backend_fails_env png_body] accepted' thrown
  have third: "json (fst (handler backend_fails_env png_body))
        = [(''message'', JStr ''Internal server error''),
           (''status'', JStr ''failure''),
           (''error'', JStr ''fetch failed'')]
      \<and> map_of (json (fst (handler backend_fails_env png_body))) ''errorKind'' = None"
    by auto
  from first second third show ?thesis by simp
qed

text \<open>
  C6, as stated, fails. A request that gives the name \<^verbatim>\<open>x\<close> twice, with the values 1 and 2,
  is not rejected: the handler and \<^verbatim>\<open>analyzeImage\<close> never look at the names, the model is
  called and the request succeeds.
\<close>

theorem duplicate_names_not_rejected:
  "schema_validate answer_env duplicate_body
     = Inr \<lparr>image = ''data:image/png;base64,iVA='',
            dict_of_vars = JObj [(''x'', JNum 1), (''x'', JNum 2)]\<rparr>
   \<and> status_code (fst (handler answer_env duplicate_body)) = 200
   \<and> snd (handler answer_env duplicate_body) =
        [SharpResize [0x89, 0x50], GenerateContent prompt jpeg_part,
         ConsoleLog ''Response from Gemini:'' ''[{'expr': '2 + 3 * 4', 'result': 14}]'']"
  by (simp add: route_defs scenario_defs sample_simps Let_def response_defs)

text \<open>
  C6, amended. The only validation is the schema's: a request is answered with the
  validation failure exactly when \<^verbatim>\<open>ImageDataSchema.validate\<close> reports an error. Once the
  schema has accepted the request and the image has been decoded and resized, the model
  is called, whatever \<^verbatim>\<open>dict_of_vars\<close> holds.
\<close>

theorem only_the_schema_rejects:
  "(status_code (fst (handler env body)) = 400) = (\<exists>details. schema_validate env body = Inl details)
   \<and> (schema_validate env body = Inr v
        \<and> match_data_url (image v) = Some mime
        \<and> index (split_on CHR '','' (image v)) 1 = Some payload
        \<and> sharp_resize env (buffer_from_base64 env payload) = Inr processedImage
      \<longrightarrow> GenerateContent prompt (fileToGenerativePart env processedImage ''image/jpeg'')
            \<in> set (snd (handler env body)))"
proof (intro conjI impI)
  show "(status_code (fst (handler env body)) = 400)
          = (\<exists>details. schema_validate env body = Inl details)"
  proof (cases "schema_validate env body")
    case (Inl details)
    then show ?thesis by (simp add: handler_def response_defs)
  next
    case (Inr v)
    then show ?thesis
      by (cases "process_image env v"; cases "fst (process_image env v)")
         (auto simp: handler_def response_defs)
  qed
next
  assume "schema_validate env body = Inr v
        \<and> match_data_url (image v) = Some mime
        \<and> index (split_on CHR '','' (image v)) 1 = Some payload
        \<and> sharp_resize env (buffer_from_base64 env payload) = Inr processedImage"
  then show "GenerateContent prompt (fileToGenerativePart env processedImage ''image/jpeg'')
            \<in> set (snd (handler env body))"
    by (auto simp: route_defs Let_def split: sum.splits)
qed

theorem only_the_schema_rejects_witness:
  "status_code (fst (handler answer_env duplicate_body)) \<noteq> 400
   \<and> GenerateContent prompt jpeg_part \<in> set (snd (handler answer_env duplicate_body))"
  using only_the_schema_rejects [of answer_env duplicate_body
      "\<lparr>image = ''data:image/png;base64,iVA='',
        dict_of_vars = JObj [(''x'', JNum 1), (''x'', JNum 2)]\<rparr>"
      "''image/png''" "''iVA=''" "[1, 2]"]
  by (simp add: scenario_defs sample_simps fileToGenerativePart_def)

text \<open>
  C9. For every request that the schema accepts and whose image is decoded and resized,
  the model is called, with the prompt and the part \<^verbatim>\<open>fileToGenerativePart\<close> builds from the
  resized image and the constant \<^verbatim>\<open>"image/jpeg"\<close>. Whenever the model is called, the MIME type
  of the part sent to it is that constant. The type that the handler reads from the data
  URL plays no part: two accepted requests that differ only in the text before the first
  comma of the data URL (both matching the pattern) give the same response and the same
  events.
\<close>

theorem backend_mime_type_is_jpeg:
  "(GenerateContent p part \<in> set (snd (handler env body))
      \<longrightarrow> mimeType (inlineData part) = ''image/jpeg'')
   \<and> (schema_validate env body = Inr v \<and> schema_validate env body' = Inr v'
        \<and> dict_of_vars v' = dict_of_vars v
        \<and> index (split_on CHR '','' (image v')) 1 = index (split_on CHR '','' (image v)) 1
        \<and> match_data_url (image v) \<noteq> None \<and> match_data_url (image v') \<noteq> None
      \<longrightarrow> handler env body' = handler env body)
   \<and> (schema_validate env body = Inr v
        \<and> match_data_url (image v) = Some mime
        \<and> index (split_on CHR '','' (image v)) 1 = Some payload
        \<and> sharp_resize env (buffer_from_base64 env payload) = Inr processedImage
      \<longrightarrow> GenerateContent prompt
              \<lparr>inlineData = \<lparr>data = buffer_to_base64 env processedImage,
                              mimeType = ''image/jpeg''\<rparr>\<rparr>
            \<in> set (snd (handler env body))
          \<and> (\<forall>q sent. GenerateContent q sent \<in> set (snd (handler env body))
                \<longrightarrow> q = prompt
                    \<and> sent = \<lparr>inlineData = \<lparr>data = buffer_to_base64 env processedImage,
                                              mimeType = ''image/jpeg''\<rparr>\<rparr>))"
proof (intro conjI impI allI)
  assume "GenerateContent p part \<in> set (snd (handler env body))"
  then show "mimeType (inlineData part) = ''image/jpeg''"
    by (auto simp: route_defs Let_def split: sum.splits option.splits prod.splits)
next
  assume same: "schema_validate env body = Inr v \<and> schema_validate env body' = Inr v'
        \<and> dict_of_vars v' = dict_of_vars v
        \<and> index (split_on CHR '','' (image v')) 1 = index (split_on CHR '','' (image v)) 1
        \<and> match_data_url (image v) \<noteq> None \<and> match_data_url (image v') \<noteq> None"
  then have "process_image env v' = process_image env v"
    by (auto simp: process_image_def Let_def split: option.splits sum.splits)
  with same show "handler env body' = handler env body"
    by (simp add: handler_def)
next
  assume "schema_validate env body = Inr v
        \<and> match_data_url (image v) = Some mime
        \<and> index (split_on CHR '','' (image v)) 1 = Some payload
        \<and> sharp_resize env (buffer_from_base64 env payload) = Inr processedImage"
  then show "GenerateContent prompt
              \<lparr>inlineData = \<lparr>data = buffer_to_base64 env processedImage,
                              mimeType = ''image/jpeg''\<rparr>\<rparr>
            \<in> set (snd (handler env body))"
    by (auto simp: route_defs Let_def split: sum.splits)
next
  fix q sent
  assume "schema_validate env body = Inr v
        \<and> match_data_url (image v) = Some mime
        \<and> index (split_on CHR '','' (image v)) 1 = Some payload
        \<and> sharp_resize env (buffer_from_base64 env payload) = Inr processedImage"
    and "GenerateContent q sent \<in> set (snd (handler env body))"
  then show "q = prompt"
    and "sent = \<lparr>inlineData = \<lparr>data = buffer_to_base64 env processedImage,
                              mimeType = ''image/jpeg''\<rparr>\<rparr>"
    by (auto simp: route_defs Let_def split: sum.splits)
qed

theorem backend_mime_type_is_jpeg_witness:
  "match_data_url ''data:image/png;base64,iVA='' = Some ''image/png''
   \<and> GenerateContent prompt jpeg_part \<in> set (snd (handler answer_env png_body))
   \<and> mimeType (inlineData jpeg_part) = ''image/jpeg''
   \<and> handler answer_env gif_body = handler answer_env png_body"
proof -
  let ?png = "\<lparr>image = ''data:image/png;base64,iVA='', dict_of_vars = JObj [(''x'', JNum 4)]\<rparr>"
  let ?gif = "\<lparr>image = ''data:image/gif;base64,iVA='', dict_of_vars = JObj [(''x'', JNum 4)]\<rparr>"
  note at_sample = backend_mime_type_is_jpeg [where p = prompt and part = jpeg_part
      and env = answer_env and body = png_body and v = ?png and body' = gif_body and v' = ?gif
      and mime = "''image/png''" and payload = "''iVA=''" and processedImage = "[1, 2]"]
  have accepted: "schema_validate answer_env png_body = Inr ?png"
    and accepted': "schema_validate answer_env gif_body = Inr ?gif"
    and resized: "sharp_resize answer_env (buffer_from_base64 answer_env ''iVA='') = Inr [1, 2]"
    and encoded: "buffer_to_base64 answer_env [1, 2] = ''AQI=''"
    by (simp_all add: scenario_defs sample_simps)
  have matched: "match_data_url (image ?png) = Some ''image/png''"
    and matched': "match_data_url (image ?gif) \<noteq> None"
    and payload: "index (split_on CHR '','' (image ?png)) 1 = Some ''iVA=''"
    and payload': "index (split_on CHR '','' (image ?gif)) 1 = index (split_on CHR '','' (image ?png)) 1"
    by (simp_all add: sample_simps)
  from at_sample accepted matched payload resized encoded
  have sent: "GenerateContent prompt jpeg_part \<in> set (snd (handler answer_env png_body))"
    by (simp add: jpeg_part_def)
  from at_sample sent have jpeg: "mimeType (inlineData jpeg_part) = ''image/jpeg''"
    by blast
  from at_sample accepted accepted' matched matched' payload'
  have same: "handler answer_env gif_body = handler answer_env png_body"
    by simp
  from matched sent jpeg same show ?thesis by simp
qed

text \<open>
  C10. When the schema accepts the request and the image string does not match
  \<^verbatim>\<open>^data:(.+);base64\<close>, reading \<^verbatim>\<open>[1]\<close> of the \<^verbatim>\<open>null\<close> match throws a \<^verbatim>\<open>TypeError\<close>; the
  handler's \<^verbatim>\<open>catch\<close> logs it and answers with the 500 internal-server-error response (not
  with the 400 validation failure). Neither the image library nor the model was called.
\<close>

theorem unmatched_data_url_gives_500:
  assumes "schema_validate env body = Inr v" and "match_data_url (image v) = None"
  shows "handler env body =
           (internal_error (TypeError (null_read_message env)),
            [ConsoleError ''Error in /calculate route:'' (TypeError (null_read_message env))])
         \<and> status_code (fst (handler env body)) = 500
         \<and> map_of (json (fst (handler env body))) ''message'' = Some (JStr ''Internal server error'')
         \<and> map_of (json (fst (handler env body))) ''status'' = Some (JStr ''failure'')"
  using assms by (simp add: handler_def process_image_def internal_error_def)

theorem unmatched_data_url_gives_500_witness:
  "schema_validate answer_env (sample_body ''iVA='' (JObj []))
     = Inr \<lparr>image = ''iVA='', dict_of_vars = JObj []\<rparr>
   \<and> match_data_url ''iVA='' = None
   \<and> status_code (fst (handler answer_env (sample_body ''iVA='' (JObj [])))) = 500"
proof -
  have accepted: "schema_validate answer_env (sample_body ''iVA='' (JObj []))
      = Inr \<lparr>image = ''iVA='', dict_of_vars = JObj []\<rparr>"
    by (simp add: scenario_defs sample_simps)
  have unmatched: "match_data_url (image \<lparr>image = ''iVA='', dict_of_vars = JObj []\<rparr>) = None"
    by (simp add: sample_match_raw)
  from unmatched_data_url_gives_500 [OF accepted unmatched] accepted unmatched show ?thesis
    by (simp add: internal_error_def)
qed

section \<open>Properties of the validator and of the registry\<close>

subsection \<open>The scan of check 3 and the depth of the prefixes\<close>

lemma depth_Nil: "depth [] = 0"
  by (simp add: depth_def)

lemma depth_Cons:
  "depth (c # cs) = (if c = CHR ''('' then 1 else if c = CHR '')'' then - 1 else 0) + depth cs"
  by (simp add: depth_def)

lemma balanced_from_prefixes:
  "0 \<le> d \<Longrightarrow>
   balanced_from d s = ((\<forall>k \<le> length s. 0 \<le> d + depth (take k s)) \<and> d + depth s = 0)"
proof (induction s arbitrary: d)
  case Nil
  then show ?case by (auto simp: depth_Nil)
next
  case (Cons c cs)
  define d' where "d' = d + (if c = CHR ''('' then 1 else if c = CHR '')'' then - 1 else 0)"
  have scan: "balanced_from d (c # cs) = (0 \<le> d' \<and> balanced_from d' cs)"
    by (auto simp: d'_def Let_def)
  have prefixes: "(\<forall>k \<le> length (c # cs). 0 \<le> d + depth (take k (c # cs)))
      = (\<forall>j \<le> length cs. 0 \<le> d' + depth (take j cs))"
  proof
    assume all: "\<forall>k \<le> length (c # cs). 0 \<le> d + depth (take k (c # cs))"
    show "\<forall>j \<le> length cs. 0 \<le> d' + depth (take j cs)"
    proof (intro allI impI)
      fix j assume "j \<le> length cs"
      with all [rule_format, of "Suc j"] have "0 \<le> d + depth (take (Suc j) (c # cs))" by simp
      then show "0 \<le> d' + depth (take j cs)" by (simp add: depth_Cons d'_def)
    qed
  next
    assume all: "\<forall>j \<le> length cs. 0 \<le> d' + depth (take j cs)"
    show "\<forall>k \<le> length (c # cs). 0 \<le> d + depth (take k (c # cs))"
    proof (intro allI impI)
      fix k assume k: "k \<le> length (c # cs)"
      show "0 \<le> d + depth (take k (c # cs))"
      proof (cases k)
        case 0
        with Cons.prems show ?thesis by (simp add: depth_Nil)
      next
        case (Suc j)
        with k all have "0 \<le> d' + depth (take j cs)" by simp
        with Suc show ?thesis by (simp add: depth_Cons d'_def)
      qed
    qed
  qed
  have total: "(d + depth (c # cs) = 0) = (d' + depth cs = 0)"
    by (auto simp: depth_Cons d'_def)
  show ?case
  proof (cases "0 \<le> d'")
    case True
    from Cons.IH [OF True] scan prefixes total True show ?thesis by simp
  next
    case False
    then have "\<not> (\<forall>j \<le> length cs. 0 \<le> d' + depth (take j cs))"
      by (auto simp: depth_Nil intro: exI [of _ 0])
    with scan prefixes False show ?thesis by simp
  qed
qed

lemma unbalanced_iff_scan: "unbalanced s = (\<not> balanced_from 0 s)"
proof -
  have "balanced_from 0 s = ((\<forall>k \<le> length s. 0 \<le> 0 + depth (take k s)) \<and> 0 + depth s = 0)"
    by (rule balanced_from_prefixes) simp
  moreover have "(\<exists>k \<in> {0..length s}. depth (take k s) < 0) = (\<not> (\<forall>k \<le> length s. 0 \<le> depth (take k s)))"
    by (auto simp: not_le)
  ultimately show ?thesis by (simp add: unbalanced_def)
qed

lemma depth_no_parens:
  "CHR ''('' \<notin> set s \<Longrightarrow> CHR '')'' \<notin> set s \<Longrightarrow> depth s = 0"
  by (simp add: depth_def)

lemma trim_empty_spaces:
  assumes "trim s = []"
  shows "\<forall>c \<in> set s. is_space c"
proof -
  from assms have "dropWhile is_space (rev (dropWhile is_space s)) = []"
    by (simp add: trim_def)
  then have "\<forall>c \<in> set (dropWhile is_space s). is_space c"
    by (simp add: dropWhile_eq_Nil_conv)
  moreover have "dropWhile is_space s \<noteq> [] \<Longrightarrow> \<not> is_space (hd (dropWhile is_space s))"
    by (rule hd_dropWhile)
  ultimately have "dropWhile is_space s = []"
    by (cases "dropWhile is_space s") auto
  then show ?thesis by (simp add: dropWhile_eq_Nil_conv)
qed

lemma parens_not_space: "\<not> is_space CHR ''(''" "\<not> is_space CHR '')''"
  by (simp_all add: is_space_def)

lemma unbalanced_not_blank:
  assumes "unbalanced s"
  shows "trim s \<noteq> []"
proof
  assume "trim s = []"
  then have spaces: "\<forall>c \<in> set s. is_space c" by (rule trim_empty_spaces)
  have no_parens: "CHR ''('' \<notin> set t \<and> CHR '')'' \<notin> set t" if "set t \<subseteq> set s" for t
    using that spaces parens_not_space by blast
  have "depth (take k s) = 0" for k
    using no_parens [of "take k s"] by (simp add: depth_no_parens set_take_subset)
  moreover have "depth s = 0"
    using no_parens [of s] by (simp add: depth_no_parens)
  ultimately show False using assms by (simp add: unbalanced_def)
qed

lemma sample_unbalanced: "unbalanced ''(2+3''"
  by (simp add: unbalanced_iff_scan)

lemma sample_allowed: "list_all allowed ''(2+3''"
  by code_simp

lemma sample_invalid_character: "validate ''(2#3'' = Err InvalidCharacter"
  by code_simp

lemma sample_invalid_unbalanced: "unbalanced ''(2#3''"
  by (simp add: unbalanced_iff_scan)

subsection \<open>The first parameter at fault\<close>

lemma first_fault_finds:
  "p \<in> set ps \<Longrightarrow> fault reg shape p \<noteq> None \<Longrightarrow> \<exists>n reason. first_fault reg shape ps = Some (n, reason)"
  by (induction ps) (auto split: option.splits)

lemma fault_formula: "fault (reg\<lparr>formula := f\<rparr>) shape p = fault reg shape p"
  by (simp add: fault_def)

lemma first_fault_formula: "first_fault (reg\<lparr>formula := f\<rparr>) shape ps = first_fault reg shape ps"
  by (induction ps) (simp_all add: fault_formula split: option.splits)

subsection \<open>The claims\<close>

text \<open>
  C7, as stated, fails on the validator of section 4.4. The checks run in order and the
  first failure wins: \<^verbatim>\<open>(2#3\<close> has unbalanced parentheses, and the whitelist check, which
  comes first, reports \<open>InvalidCharacter\<close>.
\<close>

theorem invalid_character_before_parentheses:
  "unbalanced ''(2#3''
   \<and> validate ''(2#3'' = Err InvalidCharacter
   \<and> validate ''(2#3'' \<noteq> Err UnbalancedParentheses"
  by (simp add: sample_invalid_unbalanced sample_invalid_character)

text \<open>
  C7, amended. For every expression string made of whitelisted characters only and with
  unbalanced parentheses (the depth goes negative on some prefix, or is not zero at the
  end), \<open>validate\<close> returns \<open>Err UnbalancedParentheses\<close>; in particular for \<^verbatim>\<open>(2+3\<close>.
\<close>

theorem unbalanced_rejected:
  assumes "list_all allowed expr" and "unbalanced expr"
  shows "validate expr = Err UnbalancedParentheses"
  using assms unbalanced_not_blank [of expr]
  by (simp add: validate_def unbalanced_iff_scan)

theorem unbalanced_rejected_witness:
  "list_all allowed ''(2+3'' \<and> unbalanced ''(2+3''
   \<and> validate ''(2+3'' = Err UnbalancedParentheses"
  using unbalanced_rejected [OF sample_allowed sample_unbalanced] sample_allowed sample_unbalanced
  by simp

text \<open>
  C8, as stated, fails on the registry of section 4.6. The validations run in the order
  given there: with a radius of \<open>-1\<close>, a shape that is not in the catalog is answered with
  \<open>UnknownShape\<close>; with a length of \<open>-5\<close>, a rectangle without its \<^verbatim>\<open>w\<close> is answered with
  \<open>MissingParameter\<close>.
\<close>

theorem earlier_validation_wins:
  "dimension sample_registry ''Hexagon'' ''r'' = Length
   \<and> calculate sample_registry
        \<lparr>shapeName = ''Hexagon'', calcType = area, params = [(''r'', - 1)]\<rparr> = Err UnknownShape
   \<and> dimension sample_registry ''Rectangle'' ''l'' = Length
   \<and> calculate sample_registry
        \<lparr>shapeName = ''Rectangle'', calcType = area, params = [(''l'', - 5)]\<rparr>
       = Err (MissingParameter ''w'')"
  by (simp add: calculate_def sample_registry_def fault_def)

text \<open>
  C8, amended. For every request whose shape is in the catalog, whose calculation type the
  shape supports and which gives every required parameter: if one of its parameters
  represents a length, radius or angle of the shape and is not strictly positive, then
  \<open>calculate\<close> returns \<open>Err (InvalidParameter \<dots>)\<close>, and no formula runs: the result is the
  same whatever the formulas are. In particular the area of the circle with \<open>r = -1\<close> is
  \<open>Err (InvalidParameter r \<dots>)\<close>.
\<close>

theorem non_positive_parameter_rejected:
  assumes "find (\<lambda>s. name s = shapeName req) (catalog reg) = Some spec"
    and "calcType req \<in> set (calcTypes spec)"
    and "\<forall>n \<in> set (requiredParams spec). map_of (params req) n \<noteq> None"
    and "p \<in> set (params req)"
    and "dimension reg (shapeName req) (fst p) \<noteq> Other"
    and "snd p \<le> 0"
  shows "(\<exists>n reason. calculate reg req = Err (InvalidParameter n reason))
         \<and> (\<forall>f. calculate (reg\<lparr>formula := f\<rparr>) req = calculate reg req)"
proof -
  have present: "filter (\<lambda>n. map_of (params req) n = None) (requiredParams spec) = []"
    using assms(3) by (simp add: filter_empty_conv)
  have "fault reg (shapeName req) p \<noteq> None"
    using assms(5,6) by (cases "dimension reg (shapeName req) (fst p)") (simp_all add: fault_def)
  with assms(4) obtain n reason
    where found: "first_fault reg (shapeName req) (params req) = Some (n, reason)"
    using first_fault_finds by blast
  have "calculate reg req = Err (InvalidParameter n reason)"
    using assms(1,2) present found by (simp add: calculate_def)
  moreover have "calculate (reg\<lparr>formula := f\<rparr>) req = calculate reg req" for f
    using assms(1,2) present found by (simp add: calculate_def first_fault_formula)
  ultimately show ?thesis by blast
qed

theorem non_positive_parameter_rejected_witness:
  "calculate sample_registry \<lparr>shapeName = ''Circle'', calcType = area, params = [(''r'', - 1)]\<rparr>
     = Err (InvalidParameter ''r'' NotStrictlyPositive)
   \<and> calculate (sample_registry\<lparr>formula := \<lambda>shape calc ps. 0\<rparr>)
        \<lparr>shapeName = ''Circle'', calcType = area, params = [(''r'', - 1)]\<rparr>
     = calculate sample_registry
        \<lparr>shapeName = ''Circle'', calcType = area, params = [(''r'', - 1)]\<rparr>"
proof -
  let ?req = "\<lparr>shapeName = ''Circle'', calcType = area, params = [(''r'', - 1)]\<rparr>"
  let ?circle = "\<lparr>name = ''Circle'', requiredParams = [''r''], calcTypes = [area]\<rparr>"
  have "find (\<lambda>s. name s = shapeName ?req) (catalog sample_registry) = Some ?circle"
    and "calcType ?req \<in> set (calcTypes ?circle)"
    and "\<forall>n \<in> set (requiredParams ?circle). map_of (params ?req) n \<noteq> None"
    and "(''r'', - 1) \<in> set (params ?req)"
    and "dimension sample_registry (shapeName ?req) (fst (''r'', - 1 :: real)) \<noteq> Other"
    and "snd (''r'', - 1 :: real) \<le> 0"
    by (simp_all add: sample_registry_def)
  from non_positive_parameter_rejected [OF this]
  have "calculate (sample_registry\<lparr>formula := \<lambda>shape calc ps. 0\<rparr>) ?req
      = calculate sample_registry ?req"
    by blast
  moreover have "calculate sample_registry ?req = Err (InvalidParameter ''r'' NotStrictlyPositive)"
    by (simp add: calculate_def sample_registry_def fault_def)
  ultimately show ?thesis by simp
qed

end
